theory Spec2Isabelle
  imports Complex_Main "HOL-Library.Option_ord"
begin

section \<open>JavaScript values of the request bodies\<close>

text \<open>
  A property of a JSON body is missing (\<open>undefined\<close> when the handler reads it),
  \<open>null\<close>, or a value. The data model types every field as a string or an integer,
  and the model keeps that typing: string fields carry a \<open>string\<close>, numeric fields an
  \<open>int\<close> (epoch milliseconds, seconds).
\<close>

datatype 'a jsfield = Undefined | Null | Val 'a

text \<open>JavaScript truthiness, as \<open>x || y\<close> and \<open>if (x)\<close> test it: the empty string
  and the number 0 are falsy, like \<open>undefined\<close> and \<open>null\<close>.\<close>

fun truthy_str :: "string jsfield \<Rightarrow> bool" where
  "truthy_str (Val s) = (s \<noteq> [])"
| "truthy_str _ = False"

fun truthy_num :: "int jsfield \<Rightarrow> bool" where
  "truthy_num (Val n) = (n \<noteq> 0)"
| "truthy_num _ = False"

text \<open>\<open>a || b\<close> on a string field and on a numeric field, with \<open>b\<close> a value.\<close>

fun or_str :: "string jsfield \<Rightarrow> string \<Rightarrow> string" where
  "or_str (Val s) d = (if s \<noteq> [] then s else d)"
| "or_str _ d = d"

fun or_num :: "int jsfield \<Rightarrow> int \<Rightarrow> int" where
  "or_num (Val n) d = (if n \<noteq> 0 then n else d)"
| "or_num _ d = d"

text \<open>Decimal text of a number, as a template literal prints an integer.\<close>

function dec_digits :: "int \<Rightarrow> string" where
  "dec_digits k =
     (if k < 10 then [char_of (48 + k)]
      else dec_digits (k div 10) @ [char_of (48 + k mod 10)])"
  by pat_completeness auto
termination
  by (relation "measure nat") auto

declare dec_digits.simps [simp del]

definition dec :: "int \<Rightarrow> string" where
  "dec i = (if i < 0 then CHR ''-'' # dec_digits (- i) else dec_digits i)"

text \<open>
  A JavaScript number is an IEEE double. \<open>to_double\<close> rounds a rational to the nearest
  number with 53 significant bits, a tie to the even one; it is the result of a
  multiplication and of reading a long integer. \<open>binade x\<close> is the exponent \<open>e\<close> with
  \<open>2^e \<le> x < 2^(e+1)\<close>. The subnormal range is not modelled (no number of the handlers
  gets there), and the overflow to infinity is left to the caller.
\<close>

function bit_length :: "int \<Rightarrow> nat" where
  "bit_length k = (if k \<le> 0 then 0 else Suc (bit_length (k div 2)))"
  by pat_completeness auto
termination
  by (relation "measure nat") auto

declare bit_length.simps [simp del]

definition binade :: "rat \<Rightarrow> int" where
  "binade x =
     (if 1 \<le> x then int (bit_length \<lfloor>x\<rfloor>) - 1
      else (let k = bit_length \<lfloor>1 / x\<rfloor>
            in if x * 2 ^ (k - 1) = 1 then 1 - int k else - int k))"

definition round_half_even :: "rat \<Rightarrow> int" where
  "round_half_even s =
     (let q = \<lfloor>s\<rfloor>; f = s - of_int q
      in if 1 / 2 < f \<or> (f = 1 / 2 \<and> odd q) then q + 1 else q)"

definition to_double :: "rat \<Rightarrow> rat" where
  "to_double x =
     (if x = 0 then 0
      else (let a = \<bar>x\<bar>; e = binade a;
                r = (if e \<le> 52
                     then of_int (round_half_even (a * 2 ^ nat (52 - e))) / 2 ^ nat (52 - e)
                     else of_int (round_half_even (a / 2 ^ nat (e - 52))) * 2 ^ nat (e - 52))
            in if x < 0 then - r else r))"

text \<open>
  \<open>parseInt(s)\<close> without a radix: leading white space is skipped, a sign is read, a
  \<open>0x\<close> prefix selects base 16, and the longest prefix of digits is the value, as a
  double: an integer beyond 53 bits is rounded, one that rounds to \<open>2^1024\<close> or more is
  an infinity. With no digit the result is \<open>NaN\<close>. (For a decimal numeral of more than
  20 significant digits the language lets an engine approximate; the model rounds the
  exact value, as V8 does.)
\<close>

datatype jsnum = NaN | Num int | Infinity | MinusInfinity

definition is_js_space :: "char \<Rightarrow> bool" where
  "is_js_space c = (of_char c \<in> set [32, 9, 10, 11, 12, 13 :: int])"

definition digit_of :: "char \<Rightarrow> int option" where
  "digit_of c =
     (let n = (of_char c :: int)
      in if 48 \<le> n \<and> n \<le> 57 then Some (n - 48)
         else if 97 \<le> n \<and> n \<le> 102 then Some (n - 87)
         else if 65 \<le> n \<and> n \<le> 70 then Some (n - 55)
         else None)"

definition is_digit :: "int \<Rightarrow> char \<Rightarrow> bool" where
  "is_digit radix c = (case digit_of c of Some v \<Rightarrow> v < radix | None \<Rightarrow> False)"

definition digits_value :: "int \<Rightarrow> string \<Rightarrow> int" where
  "digits_value radix cs =
     foldl (\<lambda>acc c. case digit_of c of Some v \<Rightarrow> acc * radix + v | None \<Rightarrow> acc) 0 cs"

definition parseInt :: "string \<Rightarrow> jsnum" where
  "parseInt s =
     (let s1 = dropWhile is_js_space s;
          neg = (case s1 of c # _ \<Rightarrow> c = CHR ''-'' | [] \<Rightarrow> False);
          s2 = (case s1 of c # r \<Rightarrow> (if c = CHR ''-'' \<or> c = CHR ''+'' then r else s1) | [] \<Rightarrow> []);
          hex = (case s2 of a # b # _ \<Rightarrow> a = CHR ''0'' \<and> (b = CHR ''x'' \<or> b = CHR ''X'') | _ \<Rightarrow> False);
          radix = (if hex then 16 else 10);
          ds = takeWhile (is_digit radix) (if hex then drop 2 s2 else s2)
      in if ds = [] then NaN
         else (let v = to_double (of_int (digits_value radix ds))
               in if 1024 < bit_length \<lfloor>v\<rfloor> then (if neg then MinusInfinity else Infinity)
                  else Num ((if neg then - 1 else 1) * \<lfloor>v\<rfloor>)))"

text \<open>The comparisons of a stored integer \<open>n\<close> with a number \<open>p\<close>: \<open>p \<le> n\<close> and
  \<open>n \<le> p\<close>. Nothing compares with \<open>NaN\<close>.\<close>

fun num_le :: "jsnum \<Rightarrow> int \<Rightarrow> bool" where
  "num_le (Num a) n = (a \<le> n)"
| "num_le MinusInfinity n = True"
| "num_le _ n = False"

fun num_ge :: "jsnum \<Rightarrow> int \<Rightarrow> bool" where
  "num_ge (Num b) n = (n \<le> b)"
| "num_ge Infinity n = True"
| "num_ge _ n = False"

text \<open>A query-string parameter is missing (\<open>None\<close>) or a string; \<open>if (p)\<close> takes
  the non-empty ones.\<close>

definition truthy_param :: "string option \<Rightarrow> bool" where
  "truthy_param p = (case p of Some s \<Rightarrow> s \<noteq> [] | None \<Rightarrow> False)"

section \<open>The SQLite variant (src/unnamed/part_000)\<close>

subsection \<open>Tables\<close>

text \<open>
  The two tables of \<open>initializeDatabase\<close>. A column holds SQL NULL (\<open>None\<close>) or a value.
  \<open>call_logs.id\<close> is the primary key; every INSERT of the handlers binds a non-empty
  string to it, so the column is a \<open>string\<close>. A parameter bound to \<open>undefined\<close> or
  \<open>null\<close> is stored as NULL.
\<close>

record device_row =
  d_device_id :: "string option"
  d_device_name :: "string option"
  d_phone_number :: "string option"
  d_registered_at :: "int option"
  d_last_heartbeat :: "int option"

record call_log_row =
  cl_id :: string
  cl_device_id :: "string option"
  cl_phone_number :: "string option"
  cl_contact_name :: "string option"
  cl_call_type :: "string option"
  cl_call_date :: "int option"
  cl_call_duration :: "int option"
  cl_timestamp :: "int option"

record sqlite_db =
  devices :: "device_row list"
  call_logs :: "call_log_row list"

fun bind :: "'a jsfield \<Rightarrow> 'a option" where
  "bind (Val v) = Some v"
| "bind _ = None"

text \<open>\<open>INSERT OR REPLACE INTO call_logs\<close>: rows with the new row's primary key are
  deleted, then the row is inserted.\<close>

definition insert_or_replace_call_log :: "call_log_row \<Rightarrow> call_log_row list \<Rightarrow> call_log_row list" where
  "insert_or_replace_call_log row rows = filter (\<lambda>r. cl_id r \<noteq> cl_id row) rows @ [row]"

subsection \<open>Requests and replies\<close>

text \<open>A call-log object as a client submits it.\<close>

record call_log_in =
  in_id :: "string jsfield"
  in_deviceId :: "string jsfield"
  in_phoneNumber :: "string jsfield"
  in_contactName :: "string jsfield"
  in_callType :: "string jsfield"
  in_callDate :: "int jsfield"
  in_callDuration :: "int jsfield"
  in_timestamp :: "int jsfield"

text \<open>
  What the server draws while it processes one record: the value of \<open>Date.now()\<close> in
  the id expression, the value of \<open>Math.random()\<close> (in [0, 1)), and the value of
  \<open>Date.now()\<close> in the timestamp expression. A batch pairs every record with its draws.
  The SQLite variant computes with the random number (a \<open>rat\<close>); the MongoDB variant
  only prints it, and takes the printed text (a \<open>string\<close>).
\<close>

record 'r draw =
  now_id :: int
  random :: 'r
  now_ts :: int

datatype http_error = Status400 string | Status500 string

subsection \<open>POST /api/call-logs/sync\<close>

text \<open>\<open>`${Date.now()}_${Math.floor(Math.random() * 1000)}`\<close>: the product is a
  double, the floor of a double is exact.\<close>

definition sqlite_new_id :: "rat draw \<Rightarrow> string" where
  "sqlite_new_id d = dec (now_id d) @ ''_'' @ dec \<lfloor>to_double (random d * 1000)\<rfloor>"

text \<open>The parameter array of one \<open>stmt.run\<close>: the batch's \<open>deviceId\<close> is stamped on
  the row, the record's own is not read.\<close>

definition sqlite_sync_row :: "string jsfield \<Rightarrow> call_log_in \<times> rat draw \<Rightarrow> call_log_row" where
  "sqlite_sync_row deviceId ld =
     (case ld of (l, d) \<Rightarrow>
       \<lparr> cl_id = or_str (in_id l) (sqlite_new_id d),
         cl_device_id = bind deviceId,
         cl_phone_number = bind (in_phoneNumber l),
         cl_contact_name = bind (in_contactName l),
         cl_call_type = bind (in_callType l),
         cl_call_date = bind (in_callDate l),
         cl_call_duration = bind (in_callDuration l),
         cl_timestamp = Some (or_num (in_timestamp l) (now_ts d)) \<rparr>)"

text \<open>\<open>callLogs.forEach\<close>: the statements run in the order of the batch.\<close>

fun sqlite_run_all :: "string jsfield \<Rightarrow> (call_log_in \<times> rat draw) list \<Rightarrow> call_log_row list \<Rightarrow> call_log_row list" where
  "sqlite_run_all deviceId [] rows = rows"
| "sqlite_run_all deviceId (ld # lds) rows =
     sqlite_run_all deviceId lds (insert_or_replace_call_log (sqlite_sync_row deviceId ld) rows)"

text \<open>The handler: \<open>body_callLogs\<close> is the body's \<open>callLogs\<close>, \<open>None\<close> when the body
  has no array there.\<close>

definition sqlite_sync :: "sqlite_db \<Rightarrow> string jsfield \<Rightarrow> (call_log_in \<times> rat draw) list option \<Rightarrow> sqlite_db \<times> (http_error + string)" where
  "sqlite_sync db deviceId body_callLogs =
     (case body_callLogs of
        None \<Rightarrow> (db, Inl (Status400 ''Invalid call logs data''))
      | Some lds \<Rightarrow>
          (db\<lparr>call_logs := sqlite_run_all deviceId lds (call_logs db)\<rparr>,
           Inr (''Synced '' @ dec (int (length lds)) @ '' call logs'')))"

subsection \<open>POST /api/devices/heartbeat\<close>

text \<open>\<open>UPDATE devices SET last_heartbeat = ? WHERE device_id = ?\<close>: a comparison with
  NULL is never true. The handler answers \<open>{ success: true }\<close> whenever the statement
  ran.\<close>

definition sqlite_update_heartbeat :: "int option \<Rightarrow> string option \<Rightarrow> device_row list \<Rightarrow> device_row list" where
  "sqlite_update_heartbeat ts dev rows =
     map (\<lambda>r. if dev \<noteq> None \<and> d_device_id r = dev then r\<lparr>d_last_heartbeat := ts\<rparr> else r) rows"

datatype success = Success

definition sqlite_heartbeat :: "sqlite_db \<Rightarrow> string jsfield \<Rightarrow> int jsfield \<Rightarrow> sqlite_db \<times> (http_error + success)" where
  "sqlite_heartbeat db deviceId timestamp =
     (db\<lparr>devices := sqlite_update_heartbeat (bind timestamp) (bind deviceId) (devices db)\<rparr>,
      Inr Success)"

subsection \<open>GET /api/call-logs\<close>

record call_logs_query =
  q_deviceId :: "string option"
  q_phoneNumber :: "string option"
  q_callType :: "string option"
  q_startDate :: "string option"
  q_endDate :: "string option"
  q_limit :: "string option"

text \<open>\<open>limit = 100\<close> is the default of the destructuring, then \<open>parseInt(limit)\<close>.\<close>

definition limit_of :: "string option \<Rightarrow> jsnum" where
  "limit_of p = (case p of None \<Rightarrow> Num 100 | Some s \<Rightarrow> parseInt s)"

text \<open>
  The number is handed to the store as the limit. Numbers outside the 32-bit integers
  travel as doubles, and the store takes a double that converts to a 64-bit integer
  without loss: strictly between \<open>-2^63\<close> and \<open>2^63\<close>. \<open>NaN\<close> (bound as NULL), the
  infinities and the doubles from \<open>2^63\<close> on are refused (\<open>None\<close>): the statement, or the
  query, fails.
\<close>

definition limit_value :: "jsnum \<Rightarrow> int option" where
  "limit_value p =
     (case p of
        Num n \<Rightarrow> (if - (2 ^ 63) < n \<and> n < 2 ^ 63 then Some n else None)
      | _ \<Rightarrow> None)"

text \<open>The conditions the handler appends to \<open>WHERE 1=1\<close>, each with its bound
  parameter. A \<open>NaN\<close> is bound as NULL, an infinity as the infinite REAL.\<close>

datatype sql_cond =
    DeviceIdEq string
  | PhoneNumberEq string
  | CallTypeEq string
  | CallDateGe jsnum
  | CallDateLe jsnum

definition sqlite_where :: "call_logs_query \<Rightarrow> sql_cond list" where
  "sqlite_where q =
     (case q_deviceId q of Some s \<Rightarrow> (if s \<noteq> [] then [DeviceIdEq s] else []) | None \<Rightarrow> []) @
     (case q_phoneNumber q of Some s \<Rightarrow> (if s \<noteq> [] then [PhoneNumberEq s] else []) | None \<Rightarrow> []) @
     (case q_callType q of Some s \<Rightarrow> (if s \<noteq> [] then [CallTypeEq s] else []) | None \<Rightarrow> []) @
     (case q_startDate q of Some s \<Rightarrow> (if s \<noteq> [] then [CallDateGe (parseInt s)] else []) | None \<Rightarrow> []) @
     (case q_endDate q of Some s \<Rightarrow> (if s \<noteq> [] then [CallDateLe (parseInt s)] else []) | None \<Rightarrow> [])"

text \<open>One condition on one row; a comparison with NULL on either side is not true.\<close>

fun holds :: "sql_cond \<Rightarrow> call_log_row \<Rightarrow> bool" where
  "holds (DeviceIdEq v) r = (cl_device_id r = Some v)"
| "holds (PhoneNumberEq v) r = (cl_phone_number r = Some v)"
| "holds (CallTypeEq v) r = (cl_call_type r = Some v)"
| "holds (CallDateGe p) r = (case cl_call_date r of Some n \<Rightarrow> num_le p n | None \<Rightarrow> False)"
| "holds (CallDateLe p) r = (case cl_call_date r of Some n \<Rightarrow> num_ge p n | None \<Rightarrow> False)"

text \<open>\<open>FROM call_logs cl LEFT JOIN devices d ON cl.device_id = d.device_id\<close>: a
  call-log row is paired with every device row of its \<open>device_id\<close>, and with no
  device (\<open>None\<close>, all device columns NULL) when there is none.\<close>

definition left_join_devices :: "device_row list \<Rightarrow> call_log_row list \<Rightarrow> (call_log_row \<times> device_row option) list" where
  "left_join_devices ds rows =
     concat (map (\<lambda>r.
       case filter (\<lambda>d. cl_device_id r \<noteq> None \<and> cl_device_id r = d_device_id d) ds of
         [] \<Rightarrow> [(r, None)]
       | m # ms \<Rightarrow> map (\<lambda>d. (r, Some d)) (m # ms)) rows)"

text \<open>
  What SQL leaves to the engine is a parameter of the model, a \<open>sqlite_plan\<close>: the order
  of rows that are equal under an ORDER BY, the order of the groups of a GROUP BY, and
  the row of a group that a bare column is read from. Each is a rank: the lower rank
  is visited first. Every order the engine can produce is the order of some ranks.
\<close>

record sqlite_plan =
  sp_row_rank :: "call_log_row \<times> device_row option \<Rightarrow> nat"
  sp_type_rank :: "string option \<Rightarrow> nat"
  sp_phone_rank :: "string option \<Rightarrow> nat"
  sp_bare_rank :: "call_log_row \<Rightarrow> nat"

text \<open>\<open>ORDER BY cl.call_date DESC\<close>: NULL sorts below every number, so it comes last;
  rows of one \<open>call_date\<close> come by falling rank. \<open>LIMIT ?\<close>: a negative limit is no
  limit, and nothing is cut when there are no more rows than the limit.\<close>

definition order_by_call_date_desc :: "(call_log_row \<times> device_row option \<Rightarrow> nat) \<Rightarrow> (call_log_row \<times> device_row option) list \<Rightarrow> (call_log_row \<times> device_row option) list" where
  "order_by_call_date_desc rank js =
     rev (sort_key (\<lambda>j. cl_call_date (fst j)) (sort_key rank js))"

definition sql_limit :: "int \<Rightarrow> 'a list \<Rightarrow> 'a list" where
  "sql_limit n xs = (if n < 0 \<or> int (length xs) \<le> n then xs else take (nat n) xs)"

text \<open>A row of the reply: \<open>cl.*\<close> and \<open>d.device_name\<close>.\<close>

record call_logs_item =
  item_log :: call_log_row
  device_name :: "string option"

definition select_item :: "call_log_row \<times> device_row option \<Rightarrow> call_logs_item" where
  "select_item j =
     \<lparr> item_log = fst j,
       device_name = (case snd j of None \<Rightarrow> None | Some d \<Rightarrow> d_device_name d) \<rparr>"

record 'a call_logs_reply =
  callLogs :: "'a list"
  count :: nat

text \<open>The joined rows that pass the WHERE clause.\<close>

definition sqlite_matching :: "sqlite_db \<Rightarrow> call_logs_query \<Rightarrow> (call_log_row \<times> device_row option) list" where
  "sqlite_matching db q =
     filter (\<lambda>j. list_all (\<lambda>c. holds c (fst j)) (sqlite_where q))
       (left_join_devices (devices db) (call_logs db))"

text \<open>The handler. A limit that the statement refuses gives the 500.\<close>

definition sqlite_get_call_logs :: "sqlite_plan \<Rightarrow> sqlite_db \<Rightarrow> call_logs_query \<Rightarrow> http_error + call_logs_item call_logs_reply" where
  "sqlite_get_call_logs plan db q =
     (case limit_value (limit_of (q_limit q)) of
        None \<Rightarrow> Inl (Status500 ''Failed to fetch call logs'')
      | Some n \<Rightarrow>
          (let rows = map select_item
                        (sql_limit n (order_by_call_date_desc (sp_row_rank plan) (sqlite_matching db q)))
           in Inr \<lparr> callLogs = rows, count = length rows \<rparr>))"

subsection \<open>GET /api/call-logs/number/:phoneNumber\<close>

record number_item =
  n_log :: call_log_row
  n_device_name :: "string option"
  n_device_phone :: "string option"

record number_reply =
  phoneNumber :: string
  n_callLogs :: "number_item list"
  n_count :: nat

definition select_number_item :: "call_log_row \<times> device_row option \<Rightarrow> number_item" where
  "select_number_item j =
     \<lparr> n_log = fst j,
       n_device_name = (case snd j of None \<Rightarrow> None | Some d \<Rightarrow> d_device_name d),
       n_device_phone = (case snd j of None \<Rightarrow> None | Some d \<Rightarrow> d_phone_number d) \<rparr>"

text \<open>The joined rows of one phone number.\<close>

definition sqlite_matching_number :: "sqlite_db \<Rightarrow> string \<Rightarrow> (call_log_row \<times> device_row option) list" where
  "sqlite_matching_number db number =
     filter (\<lambda>j. cl_phone_number (fst j) = Some number)
       (left_join_devices (devices db) (call_logs db))"

definition sqlite_get_call_logs_by_number :: "sqlite_plan \<Rightarrow> sqlite_db \<Rightarrow> string \<Rightarrow> string option \<Rightarrow> http_error + number_reply" where
  "sqlite_get_call_logs_by_number plan db number limit =
     (case limit_value (limit_of limit) of
        None \<Rightarrow> Inl (Status500 ''Failed to fetch call logs'')
      | Some n \<Rightarrow>
          (let rows = map select_number_item
                        (sql_limit n (order_by_call_date_desc (sp_row_rank plan)
                           (sqlite_matching_number db number)))
           in Inr \<lparr> phoneNumber = number, n_callLogs = rows, n_count = length rows \<rparr>))"

subsection \<open>GET /api/statistics\<close>

text \<open>
  \<open>SELECT k, COUNT( * ) ... GROUP BY k\<close>: one row per distinct value of the key, NULL
  being one of them, with the number of rows of that key. The groups come in the order
  of their ranks, the engine's choice.
\<close>

definition group_counts :: "('k \<Rightarrow> nat) \<Rightarrow> ('r \<Rightarrow> 'k) \<Rightarrow> 'r list \<Rightarrow> ('k \<times> nat) list" where
  "group_counts rank key rows =
     sort_key (\<lambda>g. rank (fst g))
       (map (\<lambda>k. (k, length (filter (\<lambda>r. key r = k) rows))) (remdups (map key rows)))"

text \<open>A row of \<open>topContacts\<close>. The bare column \<open>contact_name\<close> is read from one row of
  the group, the one of the lowest rank.\<close>

record 'a top_contact =
  tc_phone_number :: 'a
  tc_contact_name :: 'a
  tc_count :: nat

definition sqlite_top_groups :: "sqlite_plan \<Rightarrow> call_log_row list \<Rightarrow> string option top_contact list" where
  "sqlite_top_groups plan rows =
     map (\<lambda>kc. \<lparr> tc_phone_number = fst kc,
                 tc_contact_name =
                   (case find (\<lambda>r. cl_phone_number r = fst kc) (sort_key (sp_bare_rank plan) rows) of
                      Some r \<Rightarrow> cl_contact_name r | None \<Rightarrow> None),
                 tc_count = snd kc \<rparr>)
       (group_counts (sp_phone_rank plan) cl_phone_number rows)"

text \<open>\<open>ORDER BY count DESC LIMIT 10\<close>: groups of one count come in the reverse of the
  order they are given in, which is the order of their ranks.\<close>

definition order_by_count_desc :: "'a top_contact list \<Rightarrow> 'a top_contact list" where
  "order_by_count_desc gs = rev (sort_key tc_count gs)"

record ('k, 'c) statistics =
  totalDevices :: nat
  totalCallLogs :: nat
  callsByType :: "('k \<times> nat) list"
  topContacts :: "'c top_contact list"

definition sqlite_statistics :: "sqlite_plan \<Rightarrow> sqlite_db \<Rightarrow> (string option, string option) statistics" where
  "sqlite_statistics plan db =
     \<lparr> totalDevices = length (devices db),
       totalCallLogs = length (call_logs db),
       callsByType = group_counts (sp_type_rank plan) cl_call_type (call_logs db),
       topContacts = sql_limit 10 (order_by_count_desc (sqlite_top_groups plan (call_logs db))) \<rparr>"

section \<open>The MongoDB variant (src/server.js)\<close>

subsection \<open>Collections\<close>

text \<open>
  Documents of \<open>deviceSchema\<close> and \<open>callLogSchema\<close>. A field of a stored document is
  missing (\<open>Undefined\<close>), \<open>null\<close> or a value. The fields Mongoose adds on its own
  (\<open>_id\<close>, \<open>createdAt\<close>, \<open>updatedAt\<close>, \<open>__v\<close>) are left out: no handler reads
  them.
\<close>

record device_doc =
  md_deviceId :: "string jsfield"
  md_deviceName :: "string jsfield"
  md_phoneNumber :: "string jsfield"
  md_registeredAt :: "int jsfield"
  md_lastHeartbeat :: "int jsfield"

record call_log_doc =
  m_id :: "string jsfield"
  m_deviceId :: "string jsfield"
  m_phoneNumber :: "string jsfield"
  m_contactName :: "string jsfield"
  m_callType :: "string jsfield"
  m_callDate :: "int jsfield"
  m_callDuration :: "int jsfield"
  m_timestamp :: "int jsfield"

record mongo_db =
  device_docs :: "device_doc list"
  call_log_docs :: "call_log_doc list"

subsection \<open>updateOne with upsert, bulkWrite\<close>

text \<open>
  An update document without operators is a \<open>$set\<close> of its keys. What happens to a
  key whose value is \<open>undefined\<close> depends on the Mongoose release, which the sources do
  not fix, so it is the parameter \<open>strip\<close>: \<open>True\<close> when the key is removed from
  the update (Mongoose 6 and later), \<open>False\<close> when it is written as \<open>null\<close>
  (Mongoose 5).
\<close>

definition set_field :: "bool \<Rightarrow> 'a jsfield \<Rightarrow> 'a jsfield \<Rightarrow> 'a jsfield" where
  "set_field strip new old =
     (case new of Undefined \<Rightarrow> (if strip then old else Null) | Null \<Rightarrow> Null | Val v \<Rightarrow> Val v)"

definition apply_set :: "bool \<Rightarrow> call_log_doc \<Rightarrow> call_log_doc \<Rightarrow> call_log_doc" where
  "apply_set strip upd doc =
     \<lparr> m_id = set_field strip (m_id upd) (m_id doc),
       m_deviceId = set_field strip (m_deviceId upd) (m_deviceId doc),
       m_phoneNumber = set_field strip (m_phoneNumber upd) (m_phoneNumber doc),
       m_contactName = set_field strip (m_contactName upd) (m_contactName doc),
       m_callType = set_field strip (m_callType upd) (m_callType doc),
       m_callDate = set_field strip (m_callDate upd) (m_callDate doc),
       m_callDuration = set_field strip (m_callDuration upd) (m_callDuration doc),
       m_timestamp = set_field strip (m_timestamp upd) (m_timestamp doc) \<rparr>"

text \<open>One element of \<open>bulkOps\<close>: \<open>{ updateOne: { filter: { id }, update, upsert: true } }\<close>.\<close>

record update_op =
  filter_id :: string
  update :: call_log_doc

fun replace_first :: "('a \<Rightarrow> bool) \<Rightarrow> ('a \<Rightarrow> 'a) \<Rightarrow> 'a list \<Rightarrow> 'a list" where
  "replace_first p f [] = []"
| "replace_first p f (x # xs) = (if p x then f x # xs else x # replace_first p f xs)"

text \<open>The document an upsert inserts starts from the filter's equality.\<close>

definition filter_doc :: "string \<Rightarrow> call_log_doc" where
  "filter_doc k =
     \<lparr> m_id = Val k, m_deviceId = Undefined, m_phoneNumber = Undefined,
       m_contactName = Undefined, m_callType = Undefined, m_callDate = Undefined,
       m_callDuration = Undefined, m_timestamp = Undefined \<rparr>"

text \<open>
  \<open>updateOne\<close>: the first document whose \<open>id\<close> equals the filter's is updated; when
  there is none, a document is inserted. The unique index on \<open>id\<close> (a missing \<open>id\<close>
  is indexed as \<open>null\<close>) rejects the write when two documents would share a key:
  the result is \<open>None\<close>, the duplicate-key error.
\<close>

definition update_one_upsert :: "bool \<Rightarrow> update_op \<Rightarrow> call_log_doc list \<Rightarrow> call_log_doc list option" where
  "update_one_upsert strip op docs =
     (let docs' =
        (if \<exists>d \<in> set docs. m_id d = Val (filter_id op)
         then replace_first (\<lambda>d. m_id d = Val (filter_id op)) (apply_set strip (update op)) docs
         else docs @ [apply_set strip (update op) (filter_doc (filter_id op))])
      in if distinct (map (\<lambda>d. bind (m_id d)) docs') then Some docs' else None)"

text \<open>An ordered \<open>bulkWrite\<close> stops at the first error and keeps the writes before it;
  the flag says whether it went through.\<close>

fun bulkWrite :: "bool \<Rightarrow> update_op list \<Rightarrow> call_log_doc list \<Rightarrow> call_log_doc list \<times> bool" where
  "bulkWrite strip [] docs = (docs, True)"
| "bulkWrite strip (op # ops) docs =
     (case update_one_upsert strip op docs of
        None \<Rightarrow> (docs, False)
      | Some docs' \<Rightarrow> bulkWrite strip ops docs')"

subsection \<open>POST /api/call-logs/sync\<close>

text \<open>The element \<open>callLogs.map\<close> builds for one record: the filter takes
  \<open>log.id || `${Date.now()}_${Math.random()}`\<close>, the update takes \<open>log.id\<close>.\<close>

definition mongo_bulk_op :: "string jsfield \<Rightarrow> call_log_in \<times> string draw \<Rightarrow> update_op" where
  "mongo_bulk_op deviceId ld =
     (case ld of (l, d) \<Rightarrow>
       \<lparr> filter_id = or_str (in_id l) (dec (now_id d) @ ''_'' @ random d),
         update =
           \<lparr> m_id = in_id l,
             m_deviceId = deviceId,
             m_phoneNumber = in_phoneNumber l,
             m_contactName = in_contactName l,
             m_callType = in_callType l,
             m_callDate = in_callDate l,
             m_callDuration = in_callDuration l,
             m_timestamp = Val (or_num (in_timestamp l) (now_ts d)) \<rparr> \<rparr>)"

definition mongo_sync :: "bool \<Rightarrow> mongo_db \<Rightarrow> string jsfield \<Rightarrow> (call_log_in \<times> string draw) list option \<Rightarrow> mongo_db \<times> (http_error + string)" where
  "mongo_sync strip db deviceId body_callLogs =
     (case body_callLogs of
        None \<Rightarrow> (db, Inl (Status400 ''Invalid call logs data''))
      | Some lds \<Rightarrow>
          (case bulkWrite strip (map (mongo_bulk_op deviceId) lds) (call_log_docs db) of
             (docs', ok) \<Rightarrow>
               (db\<lparr>call_log_docs := docs'\<rparr>,
                if ok then Inr (''Synced '' @ dec (int (length lds)) @ '' call logs'')
                else Inl (Status500 ''Failed to sync call logs''))))"

subsection \<open>POST /api/devices/heartbeat\<close>

text \<open>\<open>Device.updateOne({ deviceId }, { lastHeartbeat: timestamp })\<close>, without upsert:
  the first device of that \<open>deviceId\<close> is updated, and nothing is written when there
  is none. The body's \<open>deviceId\<close> is taken to be a string.\<close>

definition set_lastHeartbeat :: "bool \<Rightarrow> int jsfield \<Rightarrow> device_doc \<Rightarrow> device_doc" where
  "set_lastHeartbeat strip timestamp d =
     d\<lparr>md_lastHeartbeat := set_field strip timestamp (md_lastHeartbeat d)\<rparr>"

definition mongo_heartbeat :: "bool \<Rightarrow> mongo_db \<Rightarrow> string \<Rightarrow> int jsfield \<Rightarrow> mongo_db \<times> (http_error + success)" where
  "mongo_heartbeat strip db deviceId timestamp =
     (db\<lparr>device_docs :=
          replace_first (\<lambda>d. md_deviceId d = Val deviceId) (set_lastHeartbeat strip timestamp)
            (device_docs db)\<rparr>,
      Inr Success)"

subsection \<open>GET /api/call-logs\<close>

text \<open>The \<open>filter\<close> object the handler fills: a key is set when its parameter is
  truthy, \<open>callDate\<close> when one of the two dates is.\<close>

record date_range =
  gte :: "jsnum option"
  lte :: "jsnum option"

record mongo_filter =
  f_deviceId :: "string option"
  f_phoneNumber :: "string option"
  f_callType :: "string option"
  f_callDate :: "date_range option"

definition mongo_filter_of :: "call_logs_query \<Rightarrow> mongo_filter" where
  "mongo_filter_of q =
     \<lparr> f_deviceId = (if truthy_param (q_deviceId q) then q_deviceId q else None),
       f_phoneNumber = (if truthy_param (q_phoneNumber q) then q_phoneNumber q else None),
       f_callType = (if truthy_param (q_callType q) then q_callType q else None),
       f_callDate =
         (if truthy_param (q_startDate q) \<or> truthy_param (q_endDate q)
          then Some \<lparr> gte = (if truthy_param (q_startDate q)
                              then map_option parseInt (q_startDate q) else None),
                      lte = (if truthy_param (q_endDate q)
                              then map_option parseInt (q_endDate q) else None) \<rparr>
          else None) \<rparr>"

text \<open>A \<open>NaN\<close> bound does not cast to the schema's Number: the query throws. An
  infinity is a number and is compared.\<close>

definition cast_fails :: "mongo_filter \<Rightarrow> bool" where
  "cast_fails f =
     (case f_callDate f of None \<Rightarrow> False
      | Some r \<Rightarrow> gte r = Some NaN \<or> lte r = Some NaN)"

text \<open>A document matches a filter when it matches every key of it.\<close>

definition in_range :: "date_range \<Rightarrow> int jsfield \<Rightarrow> bool" where
  "in_range r v =
     (case v of
        Val n \<Rightarrow> (case gte r of Some p \<Rightarrow> num_le p n | None \<Rightarrow> True) \<and>
                 (case lte r of Some p \<Rightarrow> num_ge p n | None \<Rightarrow> True)
      | _ \<Rightarrow> False)"

definition matches :: "mongo_filter \<Rightarrow> call_log_doc \<Rightarrow> bool" where
  "matches f d =
     ((case f_deviceId f of Some v \<Rightarrow> m_deviceId d = Val v | None \<Rightarrow> True) \<and>
      (case f_phoneNumber f of Some v \<Rightarrow> m_phoneNumber d = Val v | None \<Rightarrow> True) \<and>
      (case f_callType f of Some v \<Rightarrow> m_callType d = Val v | None \<Rightarrow> True) \<and>
      (case f_callDate f of Some r \<Rightarrow> in_range r (m_callDate d) | None \<Rightarrow> True))"

text \<open>
  What the server is free to choose is the parameter \<open>mongo_plan\<close>, ranks as for
  SQLite: the order of documents of one \<open>callDate\<close> under the sort, and the order of
  the groups of a \<open>$group\<close>.
\<close>

record mongo_plan =
  mp_doc_rank :: "call_log_doc \<Rightarrow> nat"
  mp_type_rank :: "string option \<Rightarrow> nat"
  mp_phone_rank :: "string option \<Rightarrow> nat"

text \<open>\<open>.sort({ callDate: -1 })\<close>: a missing or null date sorts below every number;
  documents of one \<open>callDate\<close> come by falling rank.
  \<open>.limit(n)\<close>: 0 is no limit, a negative number limits like its absolute value.\<close>

definition sort_callDate_desc :: "(call_log_doc \<Rightarrow> nat) \<Rightarrow> call_log_doc list \<Rightarrow> call_log_doc list" where
  "sort_callDate_desc rank ds = rev (sort_key (\<lambda>d. bind (m_callDate d)) (sort_key rank ds))"

definition mongo_limit :: "int \<Rightarrow> 'a list \<Rightarrow> 'a list" where
  "mongo_limit n xs = (if n = 0 \<or> int (length xs) \<le> \<bar>n\<bar> then xs else take (nat \<bar>n\<bar>) xs)"

definition mongo_get_call_logs :: "mongo_plan \<Rightarrow> mongo_db \<Rightarrow> call_logs_query \<Rightarrow> http_error + call_log_doc call_logs_reply" where
  "mongo_get_call_logs plan db q =
     (let f = mongo_filter_of q
      in if cast_fails f then Inl (Status500 ''Failed to fetch call logs'')
         else (case limit_value (limit_of (q_limit q)) of
                 None \<Rightarrow> Inl (Status500 ''Failed to fetch call logs'')
               | Some n \<Rightarrow>
                   (let logs = mongo_limit n (sort_callDate_desc (mp_doc_rank plan)
                                 (filter (matches f) (call_log_docs db)))
                    in Inr \<lparr> callLogs = logs, count = length logs \<rparr>)))"

subsection \<open>GET /api/statistics\<close>

text \<open>\<open>$group\<close> by \<open>"$callType"\<close> and by \<open>"$phoneNumber"\<close>: a missing field groups with
  \<open>null\<close>. \<open>$first\<close> reads the first document of the group, in the order of the
  collection.\<close>

definition mongo_top_groups :: "mongo_plan \<Rightarrow> call_log_doc list \<Rightarrow> string option top_contact list" where
  "mongo_top_groups plan docs =
     map (\<lambda>kc. \<lparr> tc_phone_number = fst kc,
                 tc_contact_name =
                   (case find (\<lambda>d. bind (m_phoneNumber d) = fst kc) docs of
                      Some d \<Rightarrow> bind (m_contactName d) | None \<Rightarrow> None),
                 tc_count = snd kc \<rparr>)
       (group_counts (mp_phone_rank plan) (\<lambda>d. bind (m_phoneNumber d)) docs)"

definition mongo_statistics :: "mongo_plan \<Rightarrow> mongo_db \<Rightarrow> (string option, string option) statistics" where
  "mongo_statistics plan db =
     \<lparr> totalDevices = length (device_docs db),
       totalCallLogs = length (call_log_docs db),
       callsByType = group_counts (mp_type_rank plan) (\<lambda>d. bind (m_callType d)) (call_log_docs db),
       topContacts = take 10 (order_by_count_desc (mongo_top_groups plan (call_log_docs db))) \<rparr>"

section \<open>Routes\<close>

text \<open>
  The routes each file registers on \<open>app\<close>, in the order of the file. A path is
  matched segment by segment, without regard to the case of letters and to one slash
  at the end (the defaults of Express): \<open>:name\<close> takes any non-empty segment,
  \<open>:name?\<close> may also be missing. A request no route matches gets no handler.
\<close>

datatype http_method = GET | POST | DELETE

fun split_path :: "string \<Rightarrow> string \<Rightarrow> string list" where
  "split_path acc [] = [rev acc]"
| "split_path acc (c # cs) =
     (if c = CHR ''/'' then rev acc # split_path [] cs else split_path (c # acc) cs)"

definition lower :: "char \<Rightarrow> char" where
  "lower c =
     (let n = (of_char c :: nat) in if 65 \<le> n \<and> n \<le> 90 then char_of (n + 32) else c)"

definition path_segments :: "string \<Rightarrow> string list" where
  "path_segments path =
     (let ss = split_path [] (map lower path)
      in if 1 < length ss \<and> last ss = [] then butlast ss else ss)"

fun segments_match :: "string list \<Rightarrow> string list \<Rightarrow> bool" where
  "segments_match [] [] = True"
| "segments_match [] (s # ss) = False"
| "segments_match (p # ps) [] =
     (ps = [] \<and> p \<noteq> [] \<and> hd p = CHR '':'' \<and> last p = CHR ''?'')"
| "segments_match (p # ps) (s # ss) =
     (if p \<noteq> [] \<and> hd p = CHR '':''
      then s \<noteq> [] \<and> segments_match ps ss
      else p = s \<and> segments_match ps ss)"

definition route_matches :: "http_method \<times> string \<Rightarrow> http_method \<times> string \<Rightarrow> bool" where
  "route_matches route req =
     (fst route = fst req \<and> segments_match (path_segments (snd route)) (path_segments (snd req)))"

definition sqlite_routes :: "(http_method \<times> string) list" where
  "sqlite_routes =
     [ (POST, ''/api/devices/register''),
       (POST, ''/api/devices/heartbeat''),
       (GET, ''/api/devices''),
       (POST, ''/api/call-logs/sync''),
       (POST, ''/api/call-logs''),
       (GET, ''/api/call-logs''),
       (GET, ''/api/call-logs/number/:phoneNumber''),
       (GET, ''/api/statistics''),
       (DELETE, ''/api/admin/clear-db''),
       (GET, ''/''),
       (GET, ''/devices''),
       (GET, ''/logs/:phoneNumber?'') ]"

definition mongo_routes :: "(http_method \<times> string) list" where
  "mongo_routes =
     [ (POST, ''/api/devices/register''),
       (POST, ''/api/devices/heartbeat''),
       (GET, ''/api/devices''),
       (POST, ''/api/call-logs/sync''),
       (GET, ''/api/call-logs''),
       (GET, ''/api/statistics''),
       (GET, ''/''),
       (GET, ''/devices''),
       (GET, ''/logs/:phoneNumber?'') ]"

text \<open>The route that handles a request: the first that matches.\<close>

definition dispatch :: "(http_method \<times> string) list \<Rightarrow> http_method \<times> string \<Rightarrow> (http_method \<times> string) option" where
  "dispatch routes req = find (\<lambda>r. route_matches r req) routes"

section \<open>Properties of a query and example stores\<close>


text \<open>The store of the examples: the device A1, two of its call logs, and one call log
  of a device B2 that never registered; a query for the missed calls of A1 on the
  date 2000; a query from the date 2000 on with the limit 1; and plans that give every
  row, document and group the rank 0.\<close>

definition example_plan :: sqlite_plan where
  "example_plan =
     \<lparr> sp_row_rank = (\<lambda>j. 0), sp_type_rank = (\<lambda>k. 0), sp_phone_rank = (\<lambda>k. 0),
       sp_bare_rank = (\<lambda>r. 0) \<rparr>"

definition example_mplan :: mongo_plan where
  "example_mplan = \<lparr> mp_doc_rank = (\<lambda>d. 0), mp_type_rank = (\<lambda>k. 0), mp_phone_rank = (\<lambda>k. 0) \<rparr>"

definition example_devices :: "device_row list" where
  "example_devices =
     [\<lparr> d_device_id = Some ''A1'', d_device_name = Some ''Pixel'', d_phone_number = Some ''100'',
        d_registered_at = Some 1000, d_last_heartbeat = Some 1000 \<rparr>]"

definition example_row :: "string \<Rightarrow> string \<Rightarrow> string \<Rightarrow> int \<Rightarrow> call_log_row" where
  "example_row i dev type date =
     \<lparr> cl_id = i, cl_device_id = Some dev, cl_phone_number = Some ''555'',
       cl_contact_name = None, cl_call_type = Some type, cl_call_date = Some date,
       cl_call_duration = Some 60, cl_timestamp = Some 9000 \<rparr>"

definition example_db :: sqlite_db where
  "example_db =
     \<lparr> devices = example_devices,
       call_logs = [example_row ''a'' ''A1'' ''missed'' 2000,
                    example_row ''b'' ''A1'' ''incoming'' 3000,
                    example_row ''c'' ''B2'' ''missed'' 2000] \<rparr>"

definition example_doc :: "string \<Rightarrow> string \<Rightarrow> string \<Rightarrow> int \<Rightarrow> call_log_doc" where
  "example_doc i dev type date =
     \<lparr> m_id = Val i, m_deviceId = Val dev, m_phoneNumber = Val ''555'',
       m_contactName = Undefined, m_callType = Val type, m_callDate = Val date,
       m_callDuration = Val 60, m_timestamp = Val 9000 \<rparr>"

definition example_mdb :: mongo_db where
  "example_mdb =
     \<lparr> device_docs =
         [\<lparr> md_deviceId = Val ''A1'', md_deviceName = Val ''Pixel'', md_phoneNumber = Val ''100'',
            md_registeredAt = Val 1000, md_lastHeartbeat = Val 1000 \<rparr>],
       call_log_docs = [example_doc ''a'' ''A1'' ''missed'' 2000,
                        example_doc ''b'' ''A1'' ''incoming'' 3000,
                        example_doc ''c'' ''B2'' ''missed'' 2000] \<rparr>"








text \<open>A submitted call log with an \<open>id\<close> field and a phone number, the empty stores,
  and the query without parameters.\<close>

definition example_log :: "string jsfield \<Rightarrow> string \<Rightarrow> call_log_in" where
  "example_log i phone =
     \<lparr> in_id = i, in_deviceId = Undefined, in_phoneNumber = Val phone,
       in_contactName = Undefined, in_callType = Val ''missed'', in_callDate = Val 2000,
       in_callDuration = Undefined, in_timestamp = Undefined \<rparr>"

definition empty_db :: sqlite_db where
  "empty_db = \<lparr> devices = [], call_logs = [] \<rparr>"

definition empty_mdb :: mongo_db where
  "empty_mdb = \<lparr> device_docs = [], call_log_docs = [] \<rparr>"

definition all_query :: call_logs_query where
  "all_query =
     \<lparr> q_deviceId = None, q_phoneNumber = None, q_callType = None,
       q_startDate = None, q_endDate = None, q_limit = None \<rparr>"

section \<open>Heartbeat of an unknown device\<close>

lemma replace_first_none: "\<forall>x \<in> set xs. \<not> p x \<Longrightarrow> replace_first p f xs = xs"
  by (induction xs) auto

lemma sqlite_update_heartbeat_none:
  "\<forall>r \<in> set rows. dev = None \<or> d_device_id r \<noteq> dev \<Longrightarrow>
   sqlite_update_heartbeat ts dev rows = rows"
  unfolding sqlite_update_heartbeat_def by (induction rows) auto

text \<open>
  C9. A heartbeat whose \<open>deviceId\<close> matches no registered device leaves the store as
  it was, in both variants, and the reply is the same \<open>{ success: true }\<close> that every
  heartbeat gets (the last two conjuncts are about any heartbeat, whether or not a
  device matched).
\<close>

theorem heartbeat_unknown_device_unchanged:
  assumes "\<forall>r \<in> set (devices db). bind deviceId = None \<or> d_device_id r \<noteq> bind deviceId"
    and "\<forall>d \<in> set (device_docs mdb). md_deviceId d \<noteq> Val dev"
  shows "sqlite_heartbeat db deviceId ts = (db, Inr Success)
       \<and> mongo_heartbeat strip mdb dev mts = (mdb, Inr Success)
       \<and> snd (sqlite_heartbeat db' deviceId' ts') = Inr Success
       \<and> snd (mongo_heartbeat strip' mdb' dev' mts') = Inr Success"
  using assms
  by (simp add: sqlite_heartbeat_def mongo_heartbeat_def sqlite_update_heartbeat_none
        replace_first_none)

theorem heartbeat_unknown_device_witness:
  "sqlite_heartbeat
     \<lparr> devices = [\<lparr> d_device_id = Some ''A1'', d_device_name = Some ''Pixel'',
                    d_phone_number = None, d_registered_at = Some 1000,
                    d_last_heartbeat = Some 1000 \<rparr>],
       call_logs = [] \<rparr> (Val ''B2'') (Val 5000)
   = (\<lparr> devices = [\<lparr> d_device_id = Some ''A1'', d_device_name = Some ''Pixel'',
                      d_phone_number = None, d_registered_at = Some 1000,
                      d_last_heartbeat = Some 1000 \<rparr>],
         call_logs = [] \<rparr>, Inr Success)
   \<and> mongo_heartbeat True
     \<lparr> device_docs = [\<lparr> md_deviceId = Val ''A1'', md_deviceName = Val ''Pixel'',
                        md_phoneNumber = Undefined, md_registeredAt = Val 1000,
                        md_lastHeartbeat = Val 1000 \<rparr>],
       call_log_docs = [] \<rparr> ''B2'' (Val 5000)
   = (\<lparr> device_docs = [\<lparr> md_deviceId = Val ''A1'', md_deviceName = Val ''Pixel'',
                          md_phoneNumber = Undefined, md_registeredAt = Val 1000,
                          md_lastHeartbeat = Val 1000 \<rparr>],
         call_log_docs = [] \<rparr>, Inr Success)"
  using heartbeat_unknown_device_unchanged
    [of "\<lparr> devices = [\<lparr> d_device_id = Some ''A1'', d_device_name = Some ''Pixel'',
                    d_phone_number = None, d_registered_at = Some 1000,
                    d_last_heartbeat = Some 1000 \<rparr>], call_logs = [] \<rparr>"
        "Val ''B2''"
        "\<lparr> device_docs = [\<lparr> md_deviceId = Val ''A1'', md_deviceName = Val ''Pixel'',
                        md_phoneNumber = Undefined, md_registeredAt = Val 1000,
                        md_lastHeartbeat = Val 1000 \<rparr>], call_log_docs = [] \<rparr>"
        "''B2''" "Val 5000" True "Val 5000"]
  by simp

section \<open>Decimal numerals read by parseInt\<close>












section \<open>Statistics\<close>

lemma sum_list_indicator:
  "distinct ks \<Longrightarrow> x \<in> set ks \<Longrightarrow> (\<Sum>k\<leftarrow>ks. if x = k then 1 else 0) = (1::nat)"
  by (induction ks) auto

lemma group_sum_aux:
  "distinct ks \<Longrightarrow> key ` set rows \<subseteq> set ks \<Longrightarrow>
   (\<Sum>k\<leftarrow>ks. length (filter (\<lambda>r. key r = k) rows)) = length rows"
proof (induction rows)
  case Nil
  then show ?case by simp
next
  case (Cons r rs)
  have "(\<Sum>k\<leftarrow>ks. length (filter (\<lambda>r. key r = k) (r # rs)))
      = (\<Sum>k\<leftarrow>ks. (if key r = k then 1 else 0) + length (filter (\<lambda>r. key r = k) rs))"
    by (rule arg_cong[where f=sum_list]) simp
  also have "\<dots> = (\<Sum>k\<leftarrow>ks. if key r = k then 1 else 0)
                 + (\<Sum>k\<leftarrow>ks. length (filter (\<lambda>r. key r = k) rs))"
    by (simp add: sum_list_addf)
  also have "\<dots> = 1 + length rs"
    using Cons by (simp add: sum_list_indicator)
  finally show ?case by simp
qed

lemma sum_list_insort_key:
  "sum_list (map h (insort_key f x xs)) = (h x :: nat) + sum_list (map h xs)"
  by (induction xs) simp_all

lemma sum_list_sort_key: "sum_list (map h (sort_key f xs)) = sum_list (map (h :: 'a \<Rightarrow> nat) xs)"
  by (induction xs) (simp_all add: sum_list_insort_key)

lemma group_counts_sum: "sum_list (map snd (group_counts rank key rows)) = length rows"
proof -
  have "sum_list (map snd (group_counts rank key rows))
      = (\<Sum>k\<leftarrow>remdups (map key rows). length (filter (\<lambda>r. key r = k) rows))"
    by (simp add: group_counts_def sum_list_sort_key comp_def)
  also have "\<dots> = length rows"
    by (rule group_sum_aux) auto
  finally show ?thesis .
qed

lemma distinct_map_sort_key:
  "distinct (map g (sort_key f xs)) = distinct (map g xs)"
  by (simp add: distinct_map)

lemma group_counts_keys:
  "distinct (map fst (group_counts rank key rows))"
  "set (map fst (group_counts rank key rows)) = key ` set rows"
  "length (group_counts rank key rows) = card (key ` set rows)"
proof -
  have m: "map fst (map (\<lambda>k. (k, length (filter (\<lambda>r. key r = k) rows))) (remdups (map key rows)))
         = remdups (map key rows)"
    by (simp add: comp_def)
  show "distinct (map fst (group_counts rank key rows))"
    unfolding group_counts_def distinct_map_sort_key m by simp
  show "set (map fst (group_counts rank key rows)) = key ` set rows"
    unfolding group_counts_def by (simp add: image_image)
  show "length (group_counts rank key rows) = card (key ` set rows)"
    unfolding group_counts_def by (simp add: length_remdups_card_conv)
qed

lemma group_counts_count:
  "g \<in> set (group_counts rank key rows) \<Longrightarrow>
   snd g = length (filter (\<lambda>r. key r = fst g) rows) \<and> fst g \<in> key ` set rows"
  by (auto simp: group_counts_def)

text \<open>
  C7. In every store state, and whatever order the engine gives the groups,
  \<open>totalCallLogs\<close> is the number of stored call logs, \<open>callsByType\<close> has one group for
  each value of the call type (NULL, null or missing being a value of its own), and
  the counts of the groups add up to \<open>totalCallLogs\<close>; in both variants.
\<close>

theorem statistics_totals:
  "totalCallLogs (sqlite_statistics plan db) = length (call_logs db)
   \<and> distinct (map fst (callsByType (sqlite_statistics plan db)))
   \<and> sum_list (map snd (callsByType (sqlite_statistics plan db)))
       = totalCallLogs (sqlite_statistics plan db)
   \<and> totalCallLogs (mongo_statistics mplan mdb) = length (call_log_docs mdb)
   \<and> distinct (map fst (callsByType (mongo_statistics mplan mdb)))
   \<and> sum_list (map snd (callsByType (mongo_statistics mplan mdb)))
       = totalCallLogs (mongo_statistics mplan mdb)"
  by (simp add: sqlite_statistics_def mongo_statistics_def group_counts_sum group_counts_keys(1))

lemma order_by_count_desc_sorted:
  "sorted_wrt (\<lambda>a b. tc_count b \<le> tc_count a) (order_by_count_desc gs)"
proof -
  have "sorted (map tc_count (sort_key tc_count gs))" by (rule sorted_sort_key)
  then have "sorted_wrt (\<lambda>a b. tc_count a \<le> tc_count b) (sort_key tc_count gs)"
    by (simp add: sorted_map)
  then show ?thesis
    by (simp add: order_by_count_desc_def sorted_wrt_rev)
qed

lemma order_by_count_desc_set:
  "set (order_by_count_desc gs) = set gs"
  "length (order_by_count_desc gs) = length gs"
  "distinct (map tc_phone_number (order_by_count_desc gs)) = distinct (map tc_phone_number gs)"
  by (simp_all add: order_by_count_desc_def distinct_map)

lemma sql_limit_take: "0 \<le> n \<Longrightarrow> sql_limit n xs = take (nat n) xs"
  by (simp add: sql_limit_def)

text \<open>The first \<open>n\<close> of the groups in falling order of count.\<close>

lemma top_of_groups:
  fixes G :: "'a top_contact list" and n :: nat
  defines "tops \<equiv> take n (order_by_count_desc G)"
  shows "length tops = min n (length G)"
    and "sorted_wrt (\<lambda>a b. tc_count b \<le> tc_count a) tops"
    and "distinct (map tc_phone_number G) \<Longrightarrow> distinct (map tc_phone_number tops)"
    and "set tops \<subseteq> set G"
    and "g \<in> set G \<Longrightarrow> g \<in> set tops \<or> (\<forall>e \<in> set tops. tc_count g \<le> tc_count e)"
proof -
  let ?S = "order_by_count_desc G"
  show "length tops = min n (length G)"
    by (simp add: tops_def order_by_count_desc_set(2) min.commute)
  show "sorted_wrt (\<lambda>a b. tc_count b \<le> tc_count a) tops"
    unfolding tops_def by (rule sorted_wrt_take) (rule order_by_count_desc_sorted)
  show "distinct (map tc_phone_number G) \<Longrightarrow> distinct (map tc_phone_number tops)"
    unfolding tops_def take_map[symmetric]
    by (rule distinct_take) (simp add: order_by_count_desc_set(3))
  show "set tops \<subseteq> set G"
    unfolding tops_def using set_take_subset[of n ?S] by (simp add: order_by_count_desc_set(1))
  show "g \<in> set tops \<or> (\<forall>e \<in> set tops. tc_count g \<le> tc_count e)" if "g \<in> set G"
  proof -
    have "sorted_wrt (\<lambda>a b. tc_count b \<le> tc_count a) (take n ?S @ drop n ?S)"
      by (simp add: order_by_count_desc_sorted)
    then have ord: "\<forall>e \<in> set (take n ?S). \<forall>y \<in> set (drop n ?S). tc_count y \<le> tc_count e"
      unfolding sorted_wrt_append by blast
    have "set ?S = set (take n ?S) \<union> set (drop n ?S)"
      by (metis append_take_drop_id set_append)
    then have "g \<in> set (take n ?S) \<or> g \<in> set (drop n ?S)"
      using that by (simp add: order_by_count_desc_set(1))
    then show ?thesis using ord unfolding tops_def by blast
  qed
qed

lemma find_SomeD: "find P xs = Some x \<Longrightarrow> P x \<and> x \<in> set xs"
  by (induction xs) (auto split: if_splits)

lemma find_in_docs:
  assumes "k \<in> key ` set rows"
  shows "\<exists>r \<in> set rows. key r = k \<and> find (\<lambda>r. key r = k) rows = Some r"
proof -
  have "\<exists>x \<in> set rows. key x = k" using assms by auto
  then obtain r where r: "find (\<lambda>r. key r = k) rows = Some r"
    by (cases "find (\<lambda>r. key r = k) rows") (auto simp: find_None_iff)
  then show ?thesis using find_SomeD[OF r] by auto
qed

lemma find_in_group:
  assumes "k \<in> key ` set rows"
  shows "\<exists>r \<in> set rows. key r = k \<and> find (\<lambda>r. key r = k) (sort_key rank rows) = Some r"
  using find_in_docs[of k key "sort_key rank rows"] assms by simp

lemma sqlite_top_groups_keys:
  "map tc_phone_number (sqlite_top_groups plan rows)
     = map fst (group_counts (sp_phone_rank plan) cl_phone_number rows)"
  by (simp add: sqlite_top_groups_def comp_def)

lemma mongo_top_groups_keys:
  "map tc_phone_number (mongo_top_groups plan docs)
     = map fst (group_counts (mp_phone_rank plan) (\<lambda>d. bind (m_phoneNumber d)) docs)"
  by (simp add: mongo_top_groups_def comp_def)

lemma sqlite_top_groups_entry:
  assumes "e \<in> set (sqlite_top_groups plan rows)"
  shows "tc_count e = length (filter (\<lambda>r. cl_phone_number r = tc_phone_number e) rows)"
    and "\<exists>r \<in> set rows. cl_phone_number r = tc_phone_number e
                       \<and> cl_contact_name r = tc_contact_name e"
proof -
  obtain g where g: "g \<in> set (group_counts (sp_phone_rank plan) cl_phone_number rows)"
    and e: "e = \<lparr> tc_phone_number = fst g,
                  tc_contact_name =
                    (case find (\<lambda>r. cl_phone_number r = fst g) (sort_key (sp_bare_rank plan) rows) of
                       Some r \<Rightarrow> cl_contact_name r | None \<Rightarrow> None),
                  tc_count = snd g \<rparr>"
    using assms unfolding sqlite_top_groups_def by auto
  from group_counts_count[OF g]
  have c: "snd g = length (filter (\<lambda>r. cl_phone_number r = fst g) rows)"
    and k: "fst g \<in> cl_phone_number ` set rows" by simp_all
  show "tc_count e = length (filter (\<lambda>r. cl_phone_number r = tc_phone_number e) rows)"
    using c e by simp
  from find_in_group[OF k, of "sp_bare_rank plan"]
  show "\<exists>r \<in> set rows. cl_phone_number r = tc_phone_number e
                       \<and> cl_contact_name r = tc_contact_name e"
    using e by auto
qed

lemma mongo_top_groups_entry:
  assumes "e \<in> set (mongo_top_groups plan docs)"
  shows "tc_count e = length (filter (\<lambda>d. bind (m_phoneNumber d) = tc_phone_number e) docs)"
    and "\<exists>d \<in> set docs. bind (m_phoneNumber d) = tc_phone_number e
                       \<and> bind (m_contactName d) = tc_contact_name e"
proof -
  obtain g where g: "g \<in> set (group_counts (mp_phone_rank plan) (\<lambda>d. bind (m_phoneNumber d)) docs)"
    and e: "e = \<lparr> tc_phone_number = fst g,
                  tc_contact_name =
                    (case find (\<lambda>d. bind (m_phoneNumber d) = fst g) docs of
                       Some d \<Rightarrow> bind (m_contactName d) | None \<Rightarrow> None),
                  tc_count = snd g \<rparr>"
    using assms unfolding mongo_top_groups_def by auto
  from group_counts_count[OF g]
  have c: "snd g = length (filter (\<lambda>d. bind (m_phoneNumber d) = fst g) docs)"
    and k: "fst g \<in> (\<lambda>d. bind (m_phoneNumber d)) ` set docs" by simp_all
  show "tc_count e = length (filter (\<lambda>d. bind (m_phoneNumber d) = tc_phone_number e) docs)"
    using c e by simp
  from find_in_docs[OF k]
  show "\<exists>d \<in> set docs. bind (m_phoneNumber d) = tc_phone_number e
                       \<and> bind (m_contactName d) = tc_contact_name e"
    using e by auto
qed

lemma sqlite_top_contacts:
  "topContacts (sqlite_statistics plan db)
     = take 10 (order_by_count_desc (sqlite_top_groups plan (call_logs db)))"
  by (simp add: sqlite_statistics_def sql_limit_take)

lemma mongo_top_contacts:
  "topContacts (mongo_statistics plan db)
     = take 10 (order_by_count_desc (mongo_top_groups plan (call_log_docs db)))"
  by (simp add: mongo_statistics_def)

lemma sqlite_top_groups_shape:
  "distinct (map tc_phone_number (sqlite_top_groups plan rows))"
  "length (sqlite_top_groups plan rows) = card (cl_phone_number ` set rows)"
  "tc_phone_number ` set (sqlite_top_groups plan rows) = cl_phone_number ` set rows"
proof -
  show "distinct (map tc_phone_number (sqlite_top_groups plan rows))"
    by (simp only: sqlite_top_groups_keys group_counts_keys(1))
  have "length (sqlite_top_groups plan rows)
        = length (group_counts (sp_phone_rank plan) cl_phone_number rows)"
    by (simp add: sqlite_top_groups_def)
  then show "length (sqlite_top_groups plan rows) = card (cl_phone_number ` set rows)"
    by (simp only: group_counts_keys(3))
  have "set (map tc_phone_number (sqlite_top_groups plan rows)) = cl_phone_number ` set rows"
    by (simp only: sqlite_top_groups_keys group_counts_keys(2))
  then show "tc_phone_number ` set (sqlite_top_groups plan rows) = cl_phone_number ` set rows"
    by simp
qed

lemma mongo_top_groups_shape:
  "distinct (map tc_phone_number (mongo_top_groups plan docs))"
  "length (mongo_top_groups plan docs) = card ((\<lambda>d. bind (m_phoneNumber d)) ` set docs)"
  "tc_phone_number ` set (mongo_top_groups plan docs) = (\<lambda>d. bind (m_phoneNumber d)) ` set docs"
proof -
  show "distinct (map tc_phone_number (mongo_top_groups plan docs))"
    by (simp only: mongo_top_groups_keys group_counts_keys(1))
  have "length (mongo_top_groups plan docs)
        = length (group_counts (mp_phone_rank plan) (\<lambda>d. bind (m_phoneNumber d)) docs)"
    by (simp add: mongo_top_groups_def)
  then show "length (mongo_top_groups plan docs) = card ((\<lambda>d. bind (m_phoneNumber d)) ` set docs)"
    by (simp only: group_counts_keys(3))
  have "set (map tc_phone_number (mongo_top_groups plan docs))
        = (\<lambda>d. bind (m_phoneNumber d)) ` set docs"
    by (simp only: mongo_top_groups_keys group_counts_keys(2))
  then show "tc_phone_number ` set (mongo_top_groups plan docs)
        = (\<lambda>d. bind (m_phoneNumber d)) ` set docs"
    by simp
qed

lemma sqlite_top_most:
  assumes "r \<in> set (call_logs db)"
  shows "cl_phone_number r \<in> tc_phone_number ` set (topContacts (sqlite_statistics plan db))
         \<or> (\<forall>e \<in> set (topContacts (sqlite_statistics plan db)).
               length (filter (\<lambda>r'. cl_phone_number r' = cl_phone_number r) (call_logs db))
                 \<le> tc_count e)"
proof -
  let ?G = "sqlite_top_groups plan (call_logs db)"
  have "cl_phone_number r \<in> tc_phone_number ` set ?G"
    using assms by (simp add: sqlite_top_groups_shape(3))
  then obtain g where g: "g \<in> set ?G" "tc_phone_number g = cl_phone_number r" by auto
  have c: "tc_count g = length (filter (\<lambda>r'. cl_phone_number r' = cl_phone_number r) (call_logs db))"
    using sqlite_top_groups_entry(1)[OF g(1)] g(2) by simp
  from top_of_groups(5)[OF g(1), of 10]
  have "g \<in> set (topContacts (sqlite_statistics plan db))
        \<or> (\<forall>e \<in> set (topContacts (sqlite_statistics plan db)). tc_count g \<le> tc_count e)"
    unfolding sqlite_top_contacts .
  then show ?thesis
  proof
    assume "g \<in> set (topContacts (sqlite_statistics plan db))"
    then have "tc_phone_number g \<in> tc_phone_number ` set (topContacts (sqlite_statistics plan db))"
      by (rule imageI)
    then show ?thesis by (simp only: g(2)) simp
  next
    assume "\<forall>e \<in> set (topContacts (sqlite_statistics plan db)). tc_count g \<le> tc_count e"
    then show ?thesis by (simp only: c) simp
  qed
qed

lemma mongo_top_most:
  assumes "d \<in> set (call_log_docs db)"
  shows "bind (m_phoneNumber d) \<in> tc_phone_number ` set (topContacts (mongo_statistics plan db))
         \<or> (\<forall>e \<in> set (topContacts (mongo_statistics plan db)).
               length (filter (\<lambda>d'. bind (m_phoneNumber d') = bind (m_phoneNumber d)) (call_log_docs db))
                 \<le> tc_count e)"
proof -
  let ?G = "mongo_top_groups plan (call_log_docs db)"
  have "bind (m_phoneNumber d) \<in> tc_phone_number ` set ?G"
    using assms by (simp add: mongo_top_groups_shape(3))
  then obtain g where g: "g \<in> set ?G" "tc_phone_number g = bind (m_phoneNumber d)" by auto
  have c: "tc_count g = length (filter (\<lambda>d'. bind (m_phoneNumber d') = bind (m_phoneNumber d)) (call_log_docs db))"
    using mongo_top_groups_entry(1)[OF g(1)] g(2) by simp
  from top_of_groups(5)[OF g(1), of 10]
  have "g \<in> set (topContacts (mongo_statistics plan db))
        \<or> (\<forall>e \<in> set (topContacts (mongo_statistics plan db)). tc_count g \<le> tc_count e)"
    unfolding mongo_top_contacts .
  then show ?thesis
  proof
    assume "g \<in> set (topContacts (mongo_statistics plan db))"
    then have "tc_phone_number g \<in> tc_phone_number ` set (topContacts (mongo_statistics plan db))"
      by (rule imageI)
    then show ?thesis by (simp only: g(2)) simp
  next
    assume "\<forall>e \<in> set (topContacts (mongo_statistics plan db)). tc_count g \<le> tc_count e"
    then show ?thesis by (simp only: c) simp
  qed
qed

text \<open>
  C8. In every store state, whatever order the engine gives to groups and to groups of
  one count, and whichever row it reads the bare column from, \<open>topContacts\<close> of both
  variants has at most 10 entries, exactly as many as there are phone numbers when
  these are fewer than 10; the counts do not rise along the list; no phone number
  comes twice; the count of an entry is the number of stored call logs of its phone
  number, and its contact name is that of one stored call log of the number; and a
  phone number that is not in the list has no more call logs than any entry of it.
\<close>

theorem top_contacts_bounded_sorted:
  "length (topContacts (sqlite_statistics plan db)) \<le> 10
   \<and> length (topContacts (sqlite_statistics plan db))
       = min 10 (card (cl_phone_number ` set (call_logs db)))
   \<and> sorted_wrt (\<lambda>a b. tc_count b \<le> tc_count a) (topContacts (sqlite_statistics plan db))
   \<and> distinct (map tc_phone_number (topContacts (sqlite_statistics plan db)))
   \<and> (\<forall>e \<in> set (topContacts (sqlite_statistics plan db)).
        tc_count e = length (filter (\<lambda>r. cl_phone_number r = tc_phone_number e) (call_logs db))
        \<and> (\<exists>r \<in> set (call_logs db). cl_phone_number r = tc_phone_number e
                                     \<and> cl_contact_name r = tc_contact_name e))
   \<and> (\<forall>r \<in> set (call_logs db).
        cl_phone_number r \<in> tc_phone_number ` set (topContacts (sqlite_statistics plan db))
        \<or> (\<forall>e \<in> set (topContacts (sqlite_statistics plan db)).
              length (filter (\<lambda>r'. cl_phone_number r' = cl_phone_number r) (call_logs db))
                \<le> tc_count e))
   \<and> length (topContacts (mongo_statistics mplan mdb)) \<le> 10
   \<and> length (topContacts (mongo_statistics mplan mdb))
       = min 10 (card ((\<lambda>d. bind (m_phoneNumber d)) ` set (call_log_docs mdb)))
   \<and> sorted_wrt (\<lambda>a b. tc_count b \<le> tc_count a) (topContacts (mongo_statistics mplan mdb))
   \<and> distinct (map tc_phone_number (topContacts (mongo_statistics mplan mdb)))
   \<and> (\<forall>e \<in> set (topContacts (mongo_statistics mplan mdb)).
        tc_count e = length (filter (\<lambda>d. bind (m_phoneNumber d) = tc_phone_number e) (call_log_docs mdb))
        \<and> (\<exists>d \<in> set (call_log_docs mdb). bind (m_phoneNumber d) = tc_phone_number e
                                         \<and> bind (m_contactName d) = tc_contact_name e))
   \<and> (\<forall>d \<in> set (call_log_docs mdb).
        bind (m_phoneNumber d) \<in> tc_phone_number ` set (topContacts (mongo_statistics mplan mdb))
        \<or> (\<forall>e \<in> set (topContacts (mongo_statistics mplan mdb)).
              length (filter (\<lambda>d'. bind (m_phoneNumber d') = bind (m_phoneNumber d)) (call_log_docs mdb))
                \<le> tc_count e))"
proof -
  let ?G = "sqlite_top_groups plan (call_logs db)"
  let ?M = "mongo_top_groups mplan (call_log_docs mdb)"
  have s1: "length (topContacts (sqlite_statistics plan db))
             = min 10 (card (cl_phone_number ` set (call_logs db)))"
    unfolding sqlite_top_contacts top_of_groups(1) sqlite_top_groups_shape(2) ..
  have s2: "sorted_wrt (\<lambda>a b. tc_count b \<le> tc_count a) (topContacts (sqlite_statistics plan db))"
    unfolding sqlite_top_contacts by (rule top_of_groups(2))
  have s3: "distinct (map tc_phone_number (topContacts (sqlite_statistics plan db)))"
    unfolding sqlite_top_contacts by (rule top_of_groups(3)) (rule sqlite_top_groups_shape(1))
  have s4: "\<forall>e \<in> set (topContacts (sqlite_statistics plan db)).
        tc_count e = length (filter (\<lambda>r. cl_phone_number r = tc_phone_number e) (call_logs db))
        \<and> (\<exists>r \<in> set (call_logs db). cl_phone_number r = tc_phone_number e
                                     \<and> cl_contact_name r = tc_contact_name e)"
    unfolding sqlite_top_contacts
    using top_of_groups(4)[of 10 ?G] sqlite_top_groups_entry[of _ plan "call_logs db"] by blast
  have s5: "\<forall>r \<in> set (call_logs db).
        cl_phone_number r \<in> tc_phone_number ` set (topContacts (sqlite_statistics plan db))
        \<or> (\<forall>e \<in> set (topContacts (sqlite_statistics plan db)).
              length (filter (\<lambda>r'. cl_phone_number r' = cl_phone_number r) (call_logs db))
                \<le> tc_count e)"
    using sqlite_top_most by blast
  have m1: "length (topContacts (mongo_statistics mplan mdb))
             = min 10 (card ((\<lambda>d. bind (m_phoneNumber d)) ` set (call_log_docs mdb)))"
    unfolding mongo_top_contacts top_of_groups(1) mongo_top_groups_shape(2) ..
  have m2: "sorted_wrt (\<lambda>a b. tc_count b \<le> tc_count a) (topContacts (mongo_statistics mplan mdb))"
    unfolding mongo_top_contacts by (rule top_of_groups(2))
  have m3: "distinct (map tc_phone_number (topContacts (mongo_statistics mplan mdb)))"
    unfolding mongo_top_contacts by (rule top_of_groups(3)) (rule mongo_top_groups_shape(1))
  have m4: "\<forall>e \<in> set (topContacts (mongo_statistics mplan mdb)).
        tc_count e = length (filter (\<lambda>d. bind (m_phoneNumber d) = tc_phone_number e) (call_log_docs mdb))
        \<and> (\<exists>d \<in> set (call_log_docs mdb). bind (m_phoneNumber d) = tc_phone_number e
                                         \<and> bind (m_contactName d) = tc_contact_name e)"
    unfolding mongo_top_contacts
    using top_of_groups(4)[of 10 ?M] mongo_top_groups_entry[of _ mplan "call_log_docs mdb"] by blast
  have m5: "\<forall>d \<in> set (call_log_docs mdb).
        bind (m_phoneNumber d) \<in> tc_phone_number ` set (topContacts (mongo_statistics mplan mdb))
        \<or> (\<forall>e \<in> set (topContacts (mongo_statistics mplan mdb)).
              length (filter (\<lambda>d'. bind (m_phoneNumber d') = bind (m_phoneNumber d)) (call_log_docs mdb))
                \<le> tc_count e)"
    using mongo_top_most by blast
  have s0: "length (topContacts (sqlite_statistics plan db)) \<le> 10" using s1 by simp
  have m0: "length (topContacts (mongo_statistics mplan mdb)) \<le> 10" using m1 by simp
  show ?thesis
    by (intro conjI) (rule s0 s1 s2 s3 s4 s5 m0 m1 m2 m3 m4 m5)+
qed

text \<open>On the example store the three call logs have one phone number: the list is the
  one entry of the count 3.\<close>

theorem top_contacts_witness:
  "\<lparr> tc_phone_number = Some ''555'', tc_contact_name = None, tc_count = 3 \<rparr>
     \<in> set (topContacts (sqlite_statistics example_plan example_db))
   \<and> tc_count \<lparr> tc_phone_number = Some ''555'', tc_contact_name = None, tc_count = 3 \<rparr>
     = length (filter (\<lambda>r. cl_phone_number r
                  = tc_phone_number \<lparr> tc_phone_number = Some ''555'', tc_contact_name = None, tc_count = 3 \<rparr>)
                (call_logs example_db))
   \<and> \<lparr> tc_phone_number = Some ''555'', tc_contact_name = None, tc_count = 3 \<rparr>
     \<in> set (topContacts (mongo_statistics example_mplan example_mdb))
   \<and> tc_count \<lparr> tc_phone_number = Some ''555'', tc_contact_name = None, tc_count = 3 \<rparr>
     = length (filter (\<lambda>d. bind (m_phoneNumber d)
                  = tc_phone_number \<lparr> tc_phone_number = Some ''555'', tc_contact_name = None, tc_count = 3 \<rparr>)
                (call_log_docs example_mdb))"
proof -
  have s: "\<lparr> tc_phone_number = Some ''555'', tc_contact_name = None, tc_count = 3 \<rparr>
             \<in> set (topContacts (sqlite_statistics example_plan example_db))"
    by code_simp
  have m: "\<lparr> tc_phone_number = Some ''555'', tc_contact_name = None, tc_count = 3 \<rparr>
             \<in> set (topContacts (mongo_statistics example_mplan example_mdb))"
    by code_simp
  show ?thesis
    using top_contacts_bounded_sorted[of example_plan example_db example_mplan example_mdb] s m
    by blast
qed

section \<open>Filters of GET /api/call-logs\<close>













lemma order_by_call_date_desc_set:
  "set (order_by_call_date_desc rank js) = set js"
  "length (order_by_call_date_desc rank js) = length js"
  by (simp_all add: order_by_call_date_desc_def)


lemma sql_limit_all: "n < 0 \<or> int (length xs) \<le> n \<Longrightarrow> sql_limit n xs = xs"
  by (auto simp: sql_limit_def)



lemma sqlite_reply_full:
  assumes "limit_value (limit_of (q_limit q)) = Some n"
    and "n < 0 \<or> int (length (sqlite_matching db q)) \<le> n"
  shows "\<exists>reply. sqlite_get_call_logs plan db q = Inr reply
          \<and> set (callLogs reply) = select_item ` set (sqlite_matching db q)"
proof -
  have "sql_limit n (order_by_call_date_desc (sp_row_rank plan) (sqlite_matching db q))
        = order_by_call_date_desc (sp_row_rank plan) (sqlite_matching db q)"
    by (rule sql_limit_all) (simp add: order_by_call_date_desc_set assms(2))
  then show ?thesis
    using assms(1) by (simp add: sqlite_get_call_logs_def Let_def order_by_call_date_desc_set)
qed




lemma sort_callDate_desc_set:
  "set (sort_callDate_desc rank ds) = set ds"
  "length (sort_callDate_desc rank ds) = length ds"
  by (simp_all add: sort_callDate_desc_def)


lemma mongo_limit_all: "n = 0 \<or> int (length xs) \<le> \<bar>n\<bar> \<Longrightarrow> mongo_limit n xs = xs"
  by (auto simp: mongo_limit_def)


lemma mongo_reply_full:
  assumes "\<not> cast_fails (mongo_filter_of q)"
    and "limit_value (limit_of (q_limit q)) = Some n"
    and "n = 0 \<or> int (length (filter (matches (mongo_filter_of q)) (call_log_docs db))) \<le> \<bar>n\<bar>"
  shows "\<exists>reply. mongo_get_call_logs plan db q = Inr reply
          \<and> set (callLogs reply) = set (filter (matches (mongo_filter_of q)) (call_log_docs db))"
proof -
  have "mongo_limit n (sort_callDate_desc (mp_doc_rank plan)
          (filter (matches (mongo_filter_of q)) (call_log_docs db)))
        = sort_callDate_desc (mp_doc_rank plan) (filter (matches (mongo_filter_of q)) (call_log_docs db))"
    by (rule mongo_limit_all) (simp add: sort_callDate_desc_set assms(3))
  then show ?thesis
    using assms(1,2) by (simp add: mongo_get_call_logs_def Let_def sort_callDate_desc_set)
qed











section \<open>The routes of the two variants\<close>

text \<open>
  C1. The two variants do not register the same routes. The SQLite variant handles
  \<open>GET /api/call-logs/number/555\<close>, \<open>POST /api/call-logs\<close> and
  \<open>DELETE /api/admin/clear-db\<close>; the MongoDB variant has no handler for any of the
  three. These are the only routes one file registers and the other does not.
\<close>

theorem mongo_lacks_routes:
  "dispatch sqlite_routes (GET, ''/api/call-logs/number/555'')
     = Some (GET, ''/api/call-logs/number/:phoneNumber'')
   \<and> dispatch mongo_routes (GET, ''/api/call-logs/number/555'') = None
   \<and> dispatch sqlite_routes (POST, ''/api/call-logs'') = Some (POST, ''/api/call-logs'')
   \<and> dispatch mongo_routes (POST, ''/api/call-logs'') = None
   \<and> dispatch sqlite_routes (DELETE, ''/api/admin/clear-db'') = Some (DELETE, ''/api/admin/clear-db'')
   \<and> dispatch mongo_routes (DELETE, ''/api/admin/clear-db'') = None
   \<and> filter (\<lambda>r. r \<notin> set mongo_routes) sqlite_routes
     = [(POST, ''/api/call-logs''), (GET, ''/api/call-logs/number/:phoneNumber''),
        (DELETE, ''/api/admin/clear-db'')]
   \<and> filter (\<lambda>r. r \<notin> set sqlite_routes) mongo_routes = []"
  by code_simp

section \<open>Submitting a call log twice\<close>

text \<open>The SQLite variant: after two submissions under one \<open>id\<close> the table holds one
  row of that \<open>id\<close>, the row of the second submission; a field the second submission
  leaves out is NULL in it. Primary keys stay pairwise different.\<close>

lemma insert_or_replace_one:
  "filter (\<lambda>r. cl_id r = cl_id row) (insert_or_replace_call_log row rows) = [row]"
  by (simp add: insert_or_replace_call_log_def filter_empty_conv)

lemma insert_or_replace_distinct:
  "distinct (map cl_id rows) \<Longrightarrow> distinct (map cl_id (insert_or_replace_call_log row rows))"
  by (auto simp: insert_or_replace_call_log_def distinct_map_filter)

lemma sqlite_run_all_distinct:
  "distinct (map cl_id rows) \<Longrightarrow> distinct (map cl_id (sqlite_run_all dev lds rows))"
  by (induction lds arbitrary: rows) (simp_all add: insert_or_replace_distinct)

lemma sqlite_resubmission_replaces:
  assumes "in_id l1 = Val i" and "in_id l2 = Val i" and "i \<noteq> []"
  shows "filter (\<lambda>r. cl_id r = i)
           (call_logs (fst (sqlite_sync (fst (sqlite_sync db dev1 (Some [(l1, d1)]))) dev2 (Some [(l2, d2)]))))
         = [sqlite_sync_row dev2 (l2, d2)]"
proof -
  have "cl_id (sqlite_sync_row dev2 (l2, d2)) = i"
    using assms by (simp add: sqlite_sync_row_def)
  then show ?thesis
    using insert_or_replace_one[of "sqlite_sync_row dev2 (l2, d2)"]
    by (simp add: sqlite_sync_def)
qed

lemma sqlite_sync_row_fields:
  "cl_device_id (sqlite_sync_row dev (l, d)) = bind dev
   \<and> cl_phone_number (sqlite_sync_row dev (l, d)) = bind (in_phoneNumber l)
   \<and> cl_contact_name (sqlite_sync_row dev (l, d)) = bind (in_contactName l)
   \<and> cl_call_type (sqlite_sync_row dev (l, d)) = bind (in_callType l)
   \<and> cl_call_date (sqlite_sync_row dev (l, d)) = bind (in_callDate l)
   \<and> cl_call_duration (sqlite_sync_row dev (l, d)) = bind (in_callDuration l)"
  by (simp add: sqlite_sync_row_def)

text \<open>
  C2. A call log is submitted with \<open>contactName\<close> and \<open>callDuration\<close>, then again
  under the same \<open>id\<close> without them. On the MongoDB variant, with a Mongoose that
  removes undefined keys from an update (\<open>strip = True\<close>), the stored document keeps
  the \<open>contactName\<close> and the \<open>callDuration\<close> of the first submission. On the SQLite
  variant the stored row has NULL in both.
\<close>

theorem mongo_resubmission_keeps_old_fields:
  "call_log_docs (fst (mongo_sync True
      (fst (mongo_sync True empty_mdb (Val ''A1'')
         (Some [((example_log (Val ''x'') ''555'')\<lparr>in_contactName := Val ''Bob'', in_callDuration := Val 60\<rparr>,
                 \<lparr> now_id = 1000, random = ''0.25'', now_ts = 1000 \<rparr>)])))
      (Val ''A1'')
      (Some [(example_log (Val ''x'') ''555'', \<lparr> now_id = 2000, random = ''0.75'', now_ts = 2000 \<rparr>)])))
   = [\<lparr> m_id = Val ''x'', m_deviceId = Val ''A1'', m_phoneNumber = Val ''555'',
        m_contactName = Val ''Bob'', m_callType = Val ''missed'', m_callDate = Val 2000,
        m_callDuration = Val 60, m_timestamp = Val 2000 \<rparr>]
   \<and> call_logs (fst (sqlite_sync
      (fst (sqlite_sync empty_db (Val ''A1'')
         (Some [((example_log (Val ''x'') ''555'')\<lparr>in_contactName := Val ''Bob'', in_callDuration := Val 60\<rparr>,
                 \<lparr> now_id = 1000, random = 1/4, now_ts = 1000 \<rparr>)])))
      (Val ''A1'')
      (Some [(example_log (Val ''x'') ''555'', \<lparr> now_id = 2000, random = 3/4, now_ts = 2000 \<rparr>)])))
   = [\<lparr> cl_id = ''x'', cl_device_id = Some ''A1'', cl_phone_number = Some ''555'',
        cl_contact_name = None, cl_call_type = Some ''missed'', cl_call_date = Some 2000,
        cl_call_duration = None, cl_timestamp = Some 2000 \<rparr>]"
  by code_simp

section \<open>Synthesized identities\<close>

text \<open>
  C3. Two call logs without \<open>id\<close> go in one batch to the SQLite variant; the server
  reads the same millisecond for both, and both random numbers fall into the same
  thousandth (0.005 and 0.0055). Both get the id \<open>1000_5\<close>, the second row replaces
  the first, and the reply still says that 2 call logs were synced. On the MongoDB
  variant with a Mongoose that writes an undefined key as null (\<open>strip = False\<close>), the
  update sets \<open>id\<close> to \<open>log.id\<close>: the first document is stored with a null \<open>id\<close>,
  the second violates the unique index, and the request fails with one document
  stored.
\<close>

theorem sqlite_synthesized_ids_collide:
  "sqlite_sync empty_db (Val ''A1'')
     (Some [(example_log Undefined ''555'', \<lparr> now_id = 1000, random = 1/200, now_ts = 1000 \<rparr>),
            (example_log Undefined ''777'', \<lparr> now_id = 1000, random = 11/2000, now_ts = 1000 \<rparr>)])
   = (\<lparr> devices = [],
        call_logs =
          [\<lparr> cl_id = ''1000_5'', cl_device_id = Some ''A1'', cl_phone_number = Some ''777'',
             cl_contact_name = None, cl_call_type = Some ''missed'', cl_call_date = Some 2000,
             cl_call_duration = None, cl_timestamp = Some 1000 \<rparr>] \<rparr>,
      Inr ''Synced 2 call logs'')
   \<and> mongo_sync False empty_mdb (Val ''A1'')
     (Some [(example_log Undefined ''555'', \<lparr> now_id = 1000, random = ''0.25'', now_ts = 1000 \<rparr>),
            (example_log Undefined ''777'', \<lparr> now_id = 1001, random = ''0.75'', now_ts = 1001 \<rparr>)])
   = (\<lparr> device_docs = [],
        call_log_docs =
          [\<lparr> m_id = Null, m_deviceId = Val ''A1'', m_phoneNumber = Val ''555'',
             m_contactName = Null, m_callType = Val ''missed'', m_callDate = Val 2000,
             m_callDuration = Null, m_timestamp = Val 1000 \<rparr>] \<rparr>,
      Inl (Status500 ''Failed to sync call logs''))"
  by code_simp

section \<open>Device fields of a call-log query\<close>

text \<open>The SQLite variant: a call log whose \<open>device_id\<close> matches no device row is in the
  join, paired with no device.\<close>

lemma left_join_unmatched:
  assumes "r \<in> set rows" and "\<forall>d \<in> set ds. cl_device_id r = None \<or> cl_device_id r \<noteq> d_device_id d"
  shows "(r, None) \<in> set (left_join_devices ds rows)"
proof -
  have "filter (\<lambda>d. cl_device_id r \<noteq> None \<and> cl_device_id r = d_device_id d) ds = []"
    using assms(2) by (auto simp: filter_empty_conv)
  then show ?thesis
    using assms(1) unfolding left_join_devices_def by force
qed

text \<open>The reply of the query by phone number when the limit cuts nothing, and the
  MongoDB query, which does not read the devices.\<close>

lemma sqlite_number_reply_full:
  assumes "limit_value (limit_of limit) = Some n"
    and "n < 0 \<or> int (length (sqlite_matching_number db number)) \<le> n"
  shows "\<exists>reply. sqlite_get_call_logs_by_number plan db number limit = Inr reply
          \<and> set (n_callLogs reply) = select_number_item ` set (sqlite_matching_number db number)"
proof -
  have "sql_limit n (order_by_call_date_desc (sp_row_rank plan) (sqlite_matching_number db number))
        = order_by_call_date_desc (sp_row_rank plan) (sqlite_matching_number db number)"
    by (rule sql_limit_all) (simp add: order_by_call_date_desc_set assms(2))
  then show ?thesis
    using assms(1)
    by (simp add: sqlite_get_call_logs_by_number_def Let_def order_by_call_date_desc_set)
qed

lemma mongo_reply_ignores_devices:
  "mongo_get_call_logs mplan (mdb\<lparr>device_docs := ds\<rparr>) q = mongo_get_call_logs mplan mdb q"
proof -
  have "call_log_docs (mdb\<lparr>device_docs := ds\<rparr>) = call_log_docs mdb"
    by simp
  then show ?thesis
    by (simp only: mongo_get_call_logs_def)
qed

text \<open>
  C4. On the example store (A1 is registered, B2 is not), whatever order the engine
  gives to records of one date: both queries of the SQLite variant return the call
  logs \<open>a\<close> and \<open>b\<close> of A1 with the device name of A1, and the call log \<open>c\<close> of B2 with
  NULL. The MongoDB variant returns the three stored documents, which have no field of
  a device; and for every store and request its reply is the same whatever the
  collection of devices holds (fourth conjunct).
\<close>

theorem mongo_get_call_logs_joins_no_device:
  "(\<exists>reply. sqlite_get_call_logs plan example_db all_query = Inr reply
       \<and> (\<lambda>i. (cl_id (item_log i), device_name i)) ` set (callLogs reply)
           = {(''a'', Some ''Pixel''), (''b'', Some ''Pixel''), (''c'', None)})
   \<and> (\<exists>reply. sqlite_get_call_logs_by_number plan example_db ''555'' None = Inr reply
       \<and> (\<lambda>i. (cl_id (n_log i), n_device_name i)) ` set (n_callLogs reply)
           = {(''a'', Some ''Pixel''), (''b'', Some ''Pixel''), (''c'', None)})
   \<and> (\<exists>mreply. mongo_get_call_logs mplan example_mdb all_query = Inr mreply
       \<and> set (callLogs mreply) = set (call_log_docs example_mdb))
   \<and> mongo_get_call_logs mplan (mdb\<lparr>device_docs := ds\<rparr>) q = mongo_get_call_logs mplan mdb q"
proof -
  have l: "limit_value (limit_of None) = Some 100"
    by code_simp
  have lq: "limit_value (limit_of (q_limit all_query)) = Some 100"
    by code_simp
  have m1: "map (\<lambda>j. (cl_id (item_log (select_item j)), device_name (select_item j)))
              (sqlite_matching example_db all_query)
            = [(''a'', Some ''Pixel''), (''b'', Some ''Pixel''), (''c'', None)]"
    by code_simp
  have m2: "map (\<lambda>j. (cl_id (n_log (select_number_item j)), n_device_name (select_number_item j)))
              (sqlite_matching_number example_db ''555'')
            = [(''a'', Some ''Pixel''), (''b'', Some ''Pixel''), (''c'', None)]"
    by code_simp
  have m3: "filter (matches (mongo_filter_of all_query)) (call_log_docs example_mdb)
            = call_log_docs example_mdb"
    by code_simp
  have n1: "length (sqlite_matching example_db all_query) = 3"
    using arg_cong[OF m1, of length] by simp
  have n2: "length (sqlite_matching_number example_db ''555'') = 3"
    using arg_cong[OF m2, of length] by simp
  have n3: "length (call_log_docs example_mdb) = 3"
    by (simp add: example_mdb_def)
  have nc: "\<not> cast_fails (mongo_filter_of all_query)"
    by code_simp
  obtain reply where r1: "sqlite_get_call_logs plan example_db all_query = Inr reply"
      "set (callLogs reply) = select_item ` set (sqlite_matching example_db all_query)"
    using sqlite_reply_full[OF lq, of example_db plan] n1 by auto
  have s1: "(\<lambda>i. (cl_id (item_log i), device_name i)) ` set (callLogs reply)
            = {(''a'', Some ''Pixel''), (''b'', Some ''Pixel''), (''c'', None)}"
    using arg_cong[OF m1, of set] by (simp add: r1(2) image_image)
  obtain nreply where r2: "sqlite_get_call_logs_by_number plan example_db ''555'' None = Inr nreply"
      "set (n_callLogs nreply) = select_number_item ` set (sqlite_matching_number example_db ''555'')"
    using sqlite_number_reply_full[OF l, of example_db "''555''" plan] n2 by auto
  have s2: "(\<lambda>i. (cl_id (n_log i), n_device_name i)) ` set (n_callLogs nreply)
            = {(''a'', Some ''Pixel''), (''b'', Some ''Pixel''), (''c'', None)}"
    using arg_cong[OF m2, of set] by (simp add: r2(2) image_image)
  obtain mreply where r3: "mongo_get_call_logs mplan example_mdb all_query = Inr mreply"
      "set (callLogs mreply) = set (filter (matches (mongo_filter_of all_query)) (call_log_docs example_mdb))"
    using mongo_reply_full[OF nc lq, of example_mdb mplan] n3 m3 by auto
  have s3: "set (callLogs mreply) = set (call_log_docs example_mdb)"
    using r3(2) m3 by simp
  have p1: "\<exists>reply. sqlite_get_call_logs plan example_db all_query = Inr reply
       \<and> (\<lambda>i. (cl_id (item_log i), device_name i)) ` set (callLogs reply)
           = {(''a'', Some ''Pixel''), (''b'', Some ''Pixel''), (''c'', None)}"
    using r1(1) s1 by blast
  have p2: "\<exists>reply. sqlite_get_call_logs_by_number plan example_db ''555'' None = Inr reply
       \<and> (\<lambda>i. (cl_id (n_log i), n_device_name i)) ` set (n_callLogs reply)
           = {(''a'', Some ''Pixel''), (''b'', Some ''Pixel''), (''c'', None)}"
    using r2(1) s2 by blast
  have p3: "\<exists>mreply. mongo_get_call_logs mplan example_mdb all_query = Inr mreply
       \<and> set (callLogs mreply) = set (call_log_docs example_mdb)"
    using r3(1) s3 by blast
  show ?thesis
    by (rule conjI[OF p1 conjI[OF p2 conjI[OF p3 mongo_reply_ignores_devices]]])
qed

section \<open>Falsy timestamp and id in a batch\<close>

text \<open>A falsy \<open>timestamp\<close> is replaced by the server's time in both variants, and a
  falsy \<open>id\<close> by the synthesized one in the row the SQLite variant stores.\<close>

lemma falsy_timestamp_replaced:
  assumes "\<not> truthy_num (in_timestamp l)"
  shows "cl_timestamp (sqlite_sync_row dev (l, d)) = Some (now_ts d)"
    and "m_timestamp (update (mongo_bulk_op dev (l, d'))) = Val (now_ts d')"
  using assms by (cases "in_timestamp l"; simp add: sqlite_sync_row_def mongo_bulk_op_def)+

lemma sqlite_falsy_id_replaced:
  assumes "\<not> truthy_str (in_id l)"
  shows "cl_id (sqlite_sync_row dev (l, d)) = sqlite_new_id d"
  using assms by (cases "in_id l") (simp_all add: sqlite_sync_row_def)

text \<open>
  C10. A call log is submitted with the \<open>id\<close> \<open>""\<close> and the \<open>timestamp\<close> 0. Both
  variants store the server's time 1000 as its \<open>timestamp\<close>. The SQLite variant stores
  the synthesized id \<open>1000_250\<close>. The MongoDB variant looks the record up under a
  synthesized id but sets \<open>id\<close> to \<open>log.id\<close>: the stored document has the submitted
  \<open>id\<close> \<open>""\<close>, whatever the Mongoose release does with undefined keys; a record whose
  \<open>id\<close> is missing is stored under the synthesized id when undefined keys are removed
  (third conjunct).
\<close>

theorem mongo_stores_falsy_id:
  "call_log_docs (fst (mongo_sync True empty_mdb (Val ''A1'')
      (Some [((example_log (Val []) ''555'')\<lparr>in_timestamp := Val 0\<rparr>,
              \<lparr> now_id = 1000, random = ''0.25'', now_ts = 1000 \<rparr>)])))
   = [\<lparr> m_id = Val [], m_deviceId = Val ''A1'', m_phoneNumber = Val ''555'',
        m_contactName = Undefined, m_callType = Val ''missed'', m_callDate = Val 2000,
        m_callDuration = Undefined, m_timestamp = Val 1000 \<rparr>]
   \<and> map m_id (call_log_docs (fst (mongo_sync False empty_mdb (Val ''A1'')
      (Some [((example_log (Val []) ''555'')\<lparr>in_timestamp := Val 0\<rparr>,
              \<lparr> now_id = 1000, random = ''0.25'', now_ts = 1000 \<rparr>)])))) = [Val []]
   \<and> map m_id (call_log_docs (fst (mongo_sync True empty_mdb (Val ''A1'')
      (Some [(example_log Undefined ''555'',
              \<lparr> now_id = 1000, random = ''0.25'', now_ts = 1000 \<rparr>)])))) = [Val ''1000_0.25'']
   \<and> call_logs (fst (sqlite_sync empty_db (Val ''A1'')
      (Some [((example_log (Val []) ''555'')\<lparr>in_timestamp := Val 0\<rparr>,
              \<lparr> now_id = 1000, random = 1/4, now_ts = 1000 \<rparr>)])))
   = [\<lparr> cl_id = ''1000_250'', cl_device_id = Some ''A1'', cl_phone_number = Some ''555'',
        cl_contact_name = None, cl_call_type = Some ''missed'', cl_call_date = Some 2000,
        cl_call_duration = None, cl_timestamp = Some 1000 \<rparr>]"
  by code_simp

end
